theory Spec2Isabelle
  imports Complex_Main
begin

section \<open>The JavaScript values the server handles\<close>

text \<open>
  \<^verbatim>\<open>server.js\<close> receives the body that \<^verbatim>\<open>express.json()\<close> parsed and reads properties
  of it, compares them with \<^verbatim>\<open>===\<close>, interpolates them into template literals and, in
  \<^verbatim>\<open>add_numbers\<close>, applies \<^verbatim>\<open>+\<close> to them. The values are modelled as a datatype, and
  these four language operations as functions on it, following ECMAScript.

  A Number is an IEEE double: a finite one is modelled by the rational it denotes
  (\<open>Fin\<close>); the two zeros are one value, since the program only ever prints numbers and
  both print as \<^verbatim>\<open>0\<close>. An object is the list of its own properties in enumeration order
  (the keys are distinct); the values that come out of a JSON body hold no functions.
\<close>

datatype jsnum = NaN | PosInf | NegInf | Fin rat

datatype jsval =
    Undefined
  | Null
  | Bool bool
  | Num jsnum
  | Str string
  | Arr "jsval list"
  | Obj "(string \<times> jsval) list"

datatype type_error = NotDestructurable | NoPropertiesOfNullish | NotConvertibleToPrimitive

text \<open>
  What the code can throw: \<^verbatim>\<open>new Error(message)\<close>, written in the source, and the
  \<^verbatim>\<open>TypeError\<close>s of the language (destructuring or reading a property of
  \<^verbatim>\<open>undefined\<close>/\<^verbatim>\<open>null\<close>, converting an object that has no usable \<^verbatim>\<open>toString\<close>).
\<close>

datatype js_error = Error string | TypeError type_error

subsection \<open>Numbers: rounding to a double, addition, printing\<close>

function count_digits :: "int \<Rightarrow> int \<Rightarrow> int" where
  \<comment> \<open>the number of digits of \<open>n\<close> written to the base \<open>b\<close>; none for \<open>n \<le> 0\<close>\<close>
  "count_digits b n = (if 1 < b \<and> 0 < n then count_digits b (n div b) + 1 else 0)"
  by pat_completeness auto
termination
  by (relation "measure (\<lambda>(b, n). nat n)") (auto simp: int_div_less_self)

declare count_digits.simps [simp del]

definition floor_log :: "int \<Rightarrow> rat \<Rightarrow> int" where
  \<comment> \<open>the integer part of the logarithm of a positive rational, to the base \<open>b\<close>\<close>
  "floor_log b x =
     (if 1 \<le> x then count_digits b \<lfloor>x\<rfloor> - 1
      else - count_digits b (\<lceil>1 / x\<rceil> - 1))"

definition round_half_even :: "rat \<Rightarrow> int" where
  "round_half_even m =
     (let f = \<lfloor>m\<rfloor>; d = m - of_int f
      in if d < 1 / 2 then f else if 1 / 2 < d then f + 1 else if even f then f else f + 1)"

definition to_double :: "rat \<Rightarrow> jsnum" where
  \<comment> \<open>the double nearest to a rational, ties to the even significand (53 bits,
      exponents from -1022, overflow to an infinity)\<close>
  "to_double q =
     (if q = 0 then Fin 0
      else
        let a = \<bar>q\<bar>;
            e = max (floor_log 2 a) (- 1022);
            ulp = 2 powi (e - 52);
            v = of_int (round_half_even (a / ulp)) * ulp
        in if 2 ^ 1024 \<le> v then (if 0 < q then PosInf else NegInf)
           else Fin (if 0 < q then v else - v))"

fun num_add :: "jsnum \<Rightarrow> jsnum \<Rightarrow> jsnum" where
  "num_add NaN y = NaN"
| "num_add x NaN = NaN"
| "num_add PosInf NegInf = NaN"
| "num_add NegInf PosInf = NaN"
| "num_add PosInf y = PosInf"
| "num_add NegInf y = NegInf"
| "num_add x PosInf = PosInf"
| "num_add x NegInf = NegInf"
| "num_add (Fin a) (Fin b) = to_double (a + b)"

definition digit_char :: "int \<Rightarrow> char" where
  "digit_char d = ''0123456789'' ! nat d"

function decimal :: "int \<Rightarrow> string" where
  \<comment> \<open>the decimal digits of an integer that is not negative\<close>
  "decimal n = (if n < 10 then [digit_char n] else decimal (n div 10) @ [digit_char (n mod 10)])"
  by pat_completeness auto
termination
  by (relation "measure nat") (auto simp: int_div_less_self)

declare decimal.simps [simp del]

function strip_zeros :: "int \<Rightarrow> int \<Rightarrow> int \<times> int" where
  \<comment> \<open>\<open>s * 10^e\<close> with the zeros at the end of \<open>s\<close> moved into the exponent\<close>
  "strip_zeros s e = (if 0 < s \<and> s mod 10 = 0 then strip_zeros (s div 10) (e + 1) else (s, e))"
  by pat_completeness auto
termination
  by (relation "measure (\<lambda>(s, e). nat s)") (auto simp: int_div_less_self)

declare strip_zeros.simps [simp del]

definition pick_digits :: "rat \<Rightarrow> rat \<Rightarrow> int \<times> bool \<times> bool" where
  \<comment> \<open>the two multiples of \<open>u\<close> around \<open>x\<close>, and whether each reads back as \<open>x\<close>\<close>
  "pick_digits x u =
     (let lo = \<lfloor>x / u\<rfloor>
      in (lo, to_double (of_int lo * u) = Fin x, to_double (of_int (lo + 1) * u) = Fin x))"

definition closer :: "rat \<Rightarrow> rat \<Rightarrow> int \<Rightarrow> int" where
  "closer x u lo =
     (let below = x - of_int lo * u; above = of_int (lo + 1) * u - x
      in if below < above then lo else if above < below then lo + 1
         else if even lo then lo else lo + 1)"

fun shortest :: "rat \<Rightarrow> int \<Rightarrow> nat \<Rightarrow> nat \<Rightarrow> int \<times> int" where
  \<comment> \<open>the digits \<open>s\<close> and the exponent \<open>e\<close> of the shortest decimal \<open>s * 10^e\<close> that reads
      back as the double \<open>x\<close>, trying \<open>k\<close> digits and then more; 17 always suffice\<close>
  "shortest x n k 0 = (closer x (10 powi (n - int k)) \<lfloor>x / 10 powi (n - int k)\<rfloor>, n - int k)"
| "shortest x n k (Suc fuel) =
     (let u = 10 powi (n - int k); (lo, ok_lo, ok_hi) = pick_digits x u
      in if ok_lo \<and> ok_hi then (closer x u lo, n - int k)
         else if ok_lo then (lo, n - int k)
         else if ok_hi then (lo + 1, n - int k)
         else shortest x n (Suc k) fuel)"

definition positive_to_string :: "rat \<Rightarrow> string" where
  \<comment> \<open>\<^verbatim>\<open>Number::toString\<close> of a finite double above zero, radix 10\<close>
  "positive_to_string x =
     (let (s, e) = shortest x (floor_log 10 x + 1) 1 16;
          (s', e') = strip_zeros s e;
          ds = decimal s';
          k = int (length ds);
          n = e' + k
      in if k \<le> n \<and> n \<le> 21 then ds @ replicate (nat (n - k)) (CHR ''0'')
         else if 0 < n \<and> n \<le> 21 then take (nat n) ds @ ''.'' @ drop (nat n) ds
         else if - 6 < n \<and> n \<le> 0 then ''0.'' @ replicate (nat (- n)) (CHR ''0'') @ ds
         else
           let ex = (if 0 \<le> n - 1 then ''+'' else ''-'') @ decimal \<bar>n - 1\<bar>
           in if k = 1 then ds @ ''e'' @ ex
              else take 1 ds @ ''.'' @ drop 1 ds @ ''e'' @ ex)"

fun num_to_string :: "jsnum \<Rightarrow> string" where
  "num_to_string NaN = ''NaN''"
| "num_to_string PosInf = ''Infinity''"
| "num_to_string NegInf = ''-Infinity''"
| "num_to_string (Fin x) =
     (if x = 0 then ''0''
      else if x < 0 then ''-'' @ positive_to_string (- x)
      else positive_to_string x)"

subsection \<open>Conversion to text, \<^verbatim>\<open>+\<close>, property reads\<close>

fun bind :: "'e + 'a \<Rightarrow> ('a \<Rightarrow> 'e + 'b) \<Rightarrow> 'e + 'b" where
  \<comment> \<open>sequencing: an exception thrown by the first step skips the rest\<close>
  "bind (Inl e) f = Inl e"
| "bind (Inr x) f = f x"

fun collect :: "('e + 'a) list \<Rightarrow> 'e + 'a list" where
  "collect [] = Inr []"
| "collect (r # rs) = bind r (\<lambda>x. bind (collect rs) (\<lambda>xs. Inr (x # xs)))"

fun join_with :: "string \<Rightarrow> string list \<Rightarrow> string" where
  "join_with sep [] = []"
| "join_with sep [s] = s"
| "join_with sep (s # t # ts) = s @ sep @ join_with sep (t # ts)"

fun to_string :: "jsval \<Rightarrow> js_error + string" where
  \<comment> \<open>\<^verbatim>\<open>ToString\<close>, which a template literal applies to each interpolated value. An array
      is joined with commas (\<^verbatim>\<open>Array.prototype.join\<close>: \<^verbatim>\<open>undefined\<close> and \<^verbatim>\<open>null\<close> elements
      are empty); a plain object is \<^verbatim>\<open>[object Object]\<close>, unless it has a property
      \<^verbatim>\<open>toString\<close> of its own, which is not a function here: then neither it nor the
      inherited \<^verbatim>\<open>valueOf\<close> yields a primitive, and the conversion throws.\<close>
  "to_string Undefined = Inr ''undefined''"
| "to_string Null = Inr ''null''"
| "to_string (Bool b) = Inr (if b then ''true'' else ''false'')"
| "to_string (Num n) = Inr (num_to_string n)"
| "to_string (Str s) = Inr s"
| "to_string (Arr xs) =
     bind (collect (map (\<lambda>x. if x = Undefined \<or> x = Null then Inr [] else to_string x) xs))
       (\<lambda>parts. Inr (join_with '','' parts))"
| "to_string (Obj fs) =
     (if ''toString'' \<in> set (map fst fs) then Inl (TypeError NotConvertibleToPrimitive)
      else Inr ''[object Object]'')"

fun to_primitive :: "jsval \<Rightarrow> js_error + jsval" where
  \<comment> \<open>\<^verbatim>\<open>ToPrimitive\<close> without a hint: the inherited \<^verbatim>\<open>valueOf\<close> of an array or object
      returns the object itself, so the result is that of \<^verbatim>\<open>toString\<close>\<close>
  "to_primitive (Arr xs) = bind (to_string (Arr xs)) (\<lambda>s. Inr (Str s))"
| "to_primitive (Obj fs) = bind (to_string (Obj fs)) (\<lambda>s. Inr (Str s))"
| "to_primitive v = Inr v"

fun is_string :: "jsval \<Rightarrow> bool" where
  "is_string (Str s) = True"
| "is_string v = False"

fun to_number :: "jsval \<Rightarrow> jsnum" where
  \<comment> \<open>\<^verbatim>\<open>ToNumber\<close> of a primitive that is not a string\<close>
  "to_number (Num n) = n"
| "to_number Null = Fin 0"
| "to_number (Bool b) = Fin (if b then 1 else 0)"
| "to_number v = NaN"

definition js_add :: "jsval \<Rightarrow> jsval \<Rightarrow> js_error + jsval" where
  \<comment> \<open>the operator \<^verbatim>\<open>+\<close>: concatenation as soon as one operand is a string after
      \<^verbatim>\<open>ToPrimitive\<close>, the sum of two Numbers otherwise\<close>
  "js_add a b =
     bind (to_primitive a) (\<lambda>l.
     bind (to_primitive b) (\<lambda>r.
       if is_string l \<or> is_string r
       then bind (to_string l) (\<lambda>ls. bind (to_string r) (\<lambda>rs. Inr (Str (ls @ rs))))
       else Inr (Num (num_add (to_number l) (to_number r)))))"

definition nullish :: "jsval \<Rightarrow> bool" where
  "nullish v \<longleftrightarrow> v = Undefined \<or> v = Null"

fun own_property :: "jsval \<Rightarrow> string \<Rightarrow> jsval" where
  \<comment> \<open>the value of \<^verbatim>\<open>v.k\<close> for \<open>v\<close> other than \<^verbatim>\<open>undefined\<close> and \<^verbatim>\<open>null\<close>, for the names this
      program reads (\<^verbatim>\<open>method\<close>, \<^verbatim>\<open>params\<close>, \<^verbatim>\<open>name\<close>, \<^verbatim>\<open>arguments\<close>, \<^verbatim>\<open>message\<close>, \<^verbatim>\<open>a\<close>, \<^verbatim>\<open>b\<close>): no
      prototype of Object, Array, String, Number or Boolean defines one of them, so only
      an own property of an object supplies a value\<close>
  "own_property (Obj fs) k = (case map_of fs k of Some v \<Rightarrow> v | None \<Rightarrow> Undefined)"
| "own_property v k = Undefined"

definition get :: "jsval \<Rightarrow> string \<Rightarrow> js_error + jsval" where
  \<comment> \<open>the member expression \<^verbatim>\<open>v.k\<close>\<close>
  "get v k = (if nullish v then Inl (TypeError NoPropertiesOfNullish) else Inr (own_property v k))"

definition destructure :: "jsval \<Rightarrow> string \<Rightarrow> string \<Rightarrow> js_error + jsval \<times> jsval" where
  \<comment> \<open>the declaration \<^verbatim>\<open>const { k1, k2 } = v\<close>\<close>
  "destructure v k1 k2 =
     (if nullish v then Inl (TypeError NotDestructurable)
      else Inr (own_property v k1, own_property v k2))"

section \<open>The tool registry: \<^verbatim>\<open>getTools\<close>\<close>

definition getTools :: "jsval list" where
  "getTools =
     [Obj [(''name'', Str ''hello''),
           (''description'', Str ''Say hello to someone''),
           (''inputSchema'',
              Obj [(''type'', Str ''object''),
                   (''properties'',
                      Obj [(''name'',
                              Obj [(''type'', Str ''string''),
                                   (''description'', Str ''Name of the person to greet'')])]),
                   (''required'', Arr [Str ''name''])])],
      Obj [(''name'', Str ''echo''),
           (''description'', Str ''Echo back the input message''),
           (''inputSchema'',
              Obj [(''type'', Str ''object''),
                   (''properties'',
                      Obj [(''message'',
                              Obj [(''type'', Str ''string''),
                                   (''description'', Str ''Message to echo back'')])]),
                   (''required'', Arr [Str ''message''])])],
      Obj [(''name'', Str ''get_time''),
           (''description'', Str ''Get the current time''),
           (''inputSchema'',
              Obj [(''type'', Str ''object''),
                   (''properties'', Obj []),
                   (''required'', Arr [])])],
      Obj [(''name'', Str ''add_numbers''),
           (''description'', Str ''Add two numbers together''),
           (''inputSchema'',
              Obj [(''type'', Str ''object''),
                   (''properties'',
                      Obj [(''a'',
                              Obj [(''type'', Str ''number''),
                                   (''description'', Str ''First number'')]),
                           (''b'',
                              Obj [(''type'', Str ''number''),
                                   (''description'', Str ''Second number'')])]),
                   (''required'', Arr [Str ''a'', Str ''b''])])]]"

section \<open>The dispatcher: \<^verbatim>\<open>handleToolCall\<close>\<close>

text \<open>
  What the process supplies: the text of \<^verbatim>\<open>new Date().toISOString()\<close> at the moment of
  the call, and the message the engine gives each \<^verbatim>\<open>TypeError\<close> it throws.
\<close>

record runtime =
  clock :: string
  type_error_message :: "type_error \<Rightarrow> string"

definition text_content :: "string \<Rightarrow> jsval" where
  \<comment> \<open>\<^verbatim>\<open>{ content: [{ type: 'text', text: t }] }\<close>\<close>
  "text_content t = Obj [(''content'', Arr [Obj [(''type'', Str ''text''), (''text'', Str t)]])]"

definition call_tool :: "runtime \<Rightarrow> jsval \<Rightarrow> jsval \<Rightarrow> js_error + jsval" where
  \<comment> \<open>the \<^verbatim>\<open>switch (name)\<close>; \<^verbatim>\<open>case\<close> compares with \<^verbatim>\<open>===\<close>\<close>
  "call_tool rt name args =
     (if name = Str ''hello'' then
        bind (get args ''name'') (\<lambda>n. bind (to_string n) (\<lambda>s.
          Inr (text_content (''Hello, '' @ s @ ''! Welcome to the simple MCP server.''))))
      else if name = Str ''echo'' then
        bind (get args ''message'') (\<lambda>m. bind (to_string m) (\<lambda>s.
          Inr (text_content (''Echo: '' @ s))))
      else if name = Str ''get_time'' then
        Inr (text_content (''Current time: '' @ clock rt))
      else if name = Str ''add_numbers'' then
        bind (get args ''a'') (\<lambda>a. bind (get args ''b'') (\<lambda>b. bind (js_add a b) (\<lambda>result.
        bind (to_string a) (\<lambda>sa. bind (to_string b) (\<lambda>sb. bind (to_string result) (\<lambda>sr.
          Inr (text_content (sa @ '' + '' @ sb @ '' = '' @ sr))))))))
      else
        bind (to_string name) (\<lambda>s. Inl (Error (''Unknown tool: '' @ s))))"

definition handleToolCall :: "runtime \<Rightarrow> jsval \<Rightarrow> js_error + jsval" where
  "handleToolCall rt request =
     bind (destructure request ''method'' ''params'') (\<lambda>(method, params).
       if method = Str ''tools/list'' then Inr (Obj [(''tools'', Arr getTools)])
       else if method = Str ''tools/call'' then
         bind (destructure params ''name'' ''arguments'') (\<lambda>(name, args). call_tool rt name args)
       else bind (to_string method) (\<lambda>s. Inl (Error (''Unknown method: '' @ s))))"

section \<open>The POST endpoints of \<^verbatim>\<open>setupEndpoints\<close>\<close>

record response =
  status :: nat
  body :: jsval

fun message :: "runtime \<Rightarrow> js_error \<Rightarrow> string" where
  \<comment> \<open>\<^verbatim>\<open>error.message\<close>\<close>
  "message rt (Error m) = m"
| "message rt (TypeError t) = type_error_message rt t"

definition post_tool_call :: "runtime \<Rightarrow> jsval \<Rightarrow> response" where
  \<comment> \<open>the handler of \<^verbatim>\<open>POST /sse\<close> and of \<^verbatim>\<open>POST /mcp\<close> (they differ in logging only):
      \<^verbatim>\<open>res.json(result)\<close>, or \<^verbatim>\<open>res.status(500).json({ error: error.message })\<close> in the
      \<^verbatim>\<open>catch\<close>\<close>
  "post_tool_call rt req_body =
     (case handleToolCall rt req_body of
        Inr result \<Rightarrow> \<lparr>status = 200, body = result\<rparr>
      | Inl error \<Rightarrow> \<lparr>status = 500, body = Obj [(''error'', Str (message rt error))]\<rparr>)"

section \<open>The event stream: \<^verbatim>\<open>GET /sse\<close>\<close>

subsection \<open>\<^verbatim>\<open>JSON.stringify\<close>\<close>

definition hex_digit :: "nat \<Rightarrow> char" where
  "hex_digit d = ''0123456789abcdef'' ! d"

definition quote_char :: "char \<Rightarrow> string" where
  \<comment> \<open>the escapes of \<^verbatim>\<open>QuoteJSONString\<close>: the quote, the backslash and the control characters\<close>
  "quote_char c =
     (if c = CHR 0x22 then [CHR 0x5C, CHR 0x22]
      else if c = CHR 0x5C then [CHR 0x5C, CHR 0x5C]
      else if c = CHR 0x08 then [CHR 0x5C, CHR ''b'']
      else if c = CHR 0x09 then [CHR 0x5C, CHR ''t'']
      else if c = CHR 0x0A then [CHR 0x5C, CHR ''n'']
      else if c = CHR 0x0C then [CHR 0x5C, CHR ''f'']
      else if c = CHR 0x0D then [CHR 0x5C, CHR ''r'']
      else if (of_char c :: nat) < 32
        then [CHR 0x5C, CHR ''u'', CHR ''0'', CHR ''0'',
              hex_digit (of_char c div 16), hex_digit (of_char c mod 16)]
      else [c])"

definition quote :: "string \<Rightarrow> string" where
  "quote s = [CHR 0x22] @ concat (map quote_char s) @ [CHR 0x22]"

fun stringify :: "jsval \<Rightarrow> string option" where
  \<comment> \<open>\<^verbatim>\<open>undefined\<close> has no JSON text (\<open>None\<close>): an array prints it as \<^verbatim>\<open>null\<close>, an object
      leaves the property out. A Number that is not finite prints as \<^verbatim>\<open>null\<close>.\<close>
  "stringify Undefined = None"
| "stringify Null = Some ''null''"
| "stringify (Bool b) = Some (if b then ''true'' else ''false'')"
| "stringify (Num n) = Some (case n of Fin x \<Rightarrow> num_to_string n | _ \<Rightarrow> ''null'')"
| "stringify (Str s) = Some (quote s)"
| "stringify (Arr xs) =
     Some (''['' @ join_with '','' (map (\<lambda>x. case stringify x of None \<Rightarrow> ''null'' | Some t \<Rightarrow> t) xs)
           @ '']'')"
| "stringify (Obj fs) =
     Some (''{'' @ join_with '',''
             (concat (map (\<lambda>kv. case stringify (snd kv) of None \<Rightarrow> []
                                 | Some t \<Rightarrow> [quote (fst kv) @ '':'' @ t]) fs))
           @ ''}'')"

definition data_frame :: "jsval \<Rightarrow> string" where
  \<comment> \<open>the template \<^verbatim>\<open>data: ${JSON.stringify(v)}\n\n\<close>\<close>
  "data_frame v =
     ''data: '' @ (case stringify v of None \<Rightarrow> ''undefined'' | Some t \<Rightarrow> t) @ [CHR 0x0A, CHR 0x0A]"


subsection \<open>The connection and the handler\<close>








definition initMessage :: jsval where
  "initMessage =
     Obj [(''jsonrpc'', Str ''2.0''),
          (''method'', Str ''notifications/initialized''),
          (''params'', Obj [])]"







definition unknown_tool_error :: "js_error + jsval \<Rightarrow> bool" where
  \<comment> \<open>the outcome is the \<^verbatim>\<open>Error\<close> thrown by the \<^verbatim>\<open>default\<close> branch of the \<^verbatim>\<open>switch\<close>\<close>
  "unknown_tool_error r =
     (case r of Inl (Error m) \<Rightarrow> take 14 m = ''Unknown tool: '' | _ \<Rightarrow> False)"

section \<open>Example inputs\<close>

definition sample_runtime :: runtime where
  "sample_runtime =
     \<lparr>clock = ''2024-05-01T12:00:00.000Z'',
      type_error_message = (\<lambda>t. case t of
          NotDestructurable \<Rightarrow> ''Cannot destructure property of undefined''
        | NoPropertiesOfNullish \<Rightarrow> ''Cannot read properties of undefined''
        | NotConvertibleToPrimitive \<Rightarrow> ''Cannot convert object to primitive value'')\<rparr>"

definition call_params :: "jsval \<Rightarrow> jsval \<Rightarrow> jsval" where
  "call_params name args = Obj [(''name'', name), (''arguments'', args)]"

definition call_request :: "jsval \<Rightarrow> jsval \<Rightarrow> jsval" where
  \<comment> \<open>the body of the README's example:
      \<^verbatim>\<open>{"method":"tools/call","params":{"name":...,"arguments":...}}\<close>\<close>
  "call_request name args = Obj [(''method'', Str ''tools/call''), (''params'', call_params name args)]"

section \<open>Evaluating the number model at small integers\<close>





text \<open>
  The same at fractions, where the rounding shows: the doubles nearest to 0.1 and 0.2
  add up to a double other than the one nearest to 0.3, and \<open>2^53 + 1\<close> is rounded away.
\<close>

lemma count_digits_step:
  "1 < b \<Longrightarrow> 0 < n \<Longrightarrow> count_digits b n = count_digits b (n div b) + 1"
  by (subst count_digits.simps) simp

lemma count_digits_stop: "n \<le> 0 \<Longrightarrow> count_digits b n = 0"
  by (subst count_digits.simps) simp

lemma decimal_step: "10 \<le> n \<Longrightarrow> decimal n = decimal (n div 10) @ [digit_char (n mod 10)]"
  by (subst decimal.simps) simp

lemma decimal_stop: "n < 10 \<Longrightarrow> decimal n = [digit_char n]"
  by (subst decimal.simps) simp

lemma strip_zeros_step:
  "0 < s \<Longrightarrow> s mod 10 = 0 \<Longrightarrow> strip_zeros s e = strip_zeros (s div 10) (e + 1)"
  by (subst strip_zeros.simps) simp

lemma strip_zeros_stop: "s mod 10 \<noteq> 0 \<Longrightarrow> strip_zeros s e = (s, e)"
  by (subst strip_zeros.simps) simp

lemma shortest_step:
  "0 < fuel \<Longrightarrow> shortest x n k fuel =
     (let u = 10 powi (n - int k); (lo, ok_lo, ok_hi) = pick_digits x u
      in if ok_lo \<and> ok_hi then (closer x u lo, n - int k)
         else if ok_lo then (lo, n - int k)
         else if ok_hi then (lo + 1, n - int k)
         else shortest x n (Suc k) (fuel - 1))"
  by (cases fuel) (auto simp: Let_def split: prod.splits)

lemma floor_rat_numeral: "\<lfloor>numeral a / numeral b :: rat\<rfloor> = numeral a div numeral b"
  by (metis floor_divide_of_int_eq of_int_numeral)

lemma ceiling_rat_numeral: "\<lceil>numeral a / numeral b :: rat\<rceil> = - (- numeral a div numeral b)"
  by (metis ceiling_def floor_divide_of_int_eq minus_divide_left of_int_minus of_int_numeral)

lemmas double_eval = to_double_def floor_log_def round_half_even_def power_int_def Let_def
  power_one_over count_digits_step count_digits_stop floor_rat_numeral ceiling_rat_numeral

lemmas print_eval = positive_to_string_def pick_digits_def closer_def strip_zeros_step
  strip_zeros_stop decimal_step decimal_stop digit_char_def shortest_step

lemma double_examples:
  "to_double (1 / 10) = Fin (3602879701896397 / 36028797018963968)"
  "to_double (1 / 5) = Fin (3602879701896397 / 18014398509481984)"
  "to_double (3 / 10) = Fin (5404319552844595 / 18014398509481984)"
  "to_double (3 / 2) = Fin (3 / 2)"
  by (simp_all add: double_eval)

lemma sum_examples:
  "num_add (Fin (3602879701896397 / 36028797018963968)) (Fin (3602879701896397 / 18014398509481984))
     = Fin (5404319552844596 / 18014398509481984)"
  "num_add (Fin 9007199254740992) (Fin 1) = Fin 9007199254740992"
  "num_add (Fin 1) (Fin (1 / 2)) = Fin (3 / 2)"
  by (simp_all add: double_eval)

lemma print_example: "num_to_string (Fin (3 / 2)) = ''1.5''"
  by (simp add: print_eval double_eval)

section \<open>Reading a request\<close>

lemma get_Inr_iff: "get v k = Inr x \<longleftrightarrow> \<not> nullish v \<and> own_property v k = x"
  by (auto simp: get_def)

lemma get_error: "get v k = Inl e \<Longrightarrow> e = TypeError NoPropertiesOfNullish"
  by (auto simp: get_def split: if_splits)

lemma own_property_absent:
  "k \<notin> fst ` set props \<Longrightarrow> own_property (Obj props) k = Undefined"
  using map_of_eq_None_iff [of props k] by simp

lemma bind_Inr_iff: "bind m f = Inr y \<longleftrightarrow> (\<exists>x. m = Inr x \<and> f x = Inr y)"
  by (cases m) auto

lemma bind_Inl_iff: "bind m f = Inl e \<longleftrightarrow> m = Inl e \<or> (\<exists>x. m = Inr x \<and> f x = Inl e)"
  by (cases m) auto

lemma destructure_get:
  "get v k1 = Inr x \<Longrightarrow> get v k2 = Inr y \<Longrightarrow> destructure v k1 k2 = Inr (x, y)"
  by (auto simp: get_def destructure_def split: if_splits)

lemma handle_list:
  assumes "get request ''method'' = Inr (Str ''tools/list'')"
  shows "handleToolCall rt request = Inr (Obj [(''tools'', Arr getTools)])"
proof -
  have "destructure request ''method'' ''params''
          = Inr (Str ''tools/list'', own_property request ''params'')"
    using assms by (intro destructure_get) (auto simp: get_Inr_iff)
  then show ?thesis by (simp add: handleToolCall_def)
qed

lemma handle_call:
  assumes "get request ''method'' = Inr (Str ''tools/call'')"
  shows "handleToolCall rt request =
           bind (destructure (own_property request ''params'') ''name'' ''arguments'')
             (\<lambda>(name, args). call_tool rt name args)"
proof -
  have "destructure request ''method'' ''params''
          = Inr (Str ''tools/call'', own_property request ''params'')"
    using assms by (intro destructure_get) (auto simp: get_Inr_iff)
  then show ?thesis by (simp add: handleToolCall_def)
qed

lemma handle_call_tool:
  assumes "get request ''method'' = Inr (Str ''tools/call'')"
    and "get request ''params'' = Inr params"
    and "get params ''name'' = Inr name"
    and "get params ''arguments'' = Inr args"
  shows "handleToolCall rt request = call_tool rt name args"
proof -
  have "own_property request ''params'' = params"
    using assms(2) by (simp add: get_Inr_iff)
  moreover have "destructure params ''name'' ''arguments'' = Inr (name, args)"
    using assms(3,4) by (rule destructure_get)
  ultimately show ?thesis by (simp add: handle_call [OF assms(1)])
qed


lemma get_call_request:
  "get (call_request name args) ''method'' = Inr (Str ''tools/call'')"
  "get (call_request name args) ''params'' = Inr (call_params name args)"
  "get (call_params name args) ''name'' = Inr name"
  "get (call_params name args) ''arguments'' = Inr args"
  by (simp_all add: call_request_def call_params_def get_def nullish_def)

section \<open>What the conversions can throw\<close>

lemma collect_Inl: "collect rs = Inl e \<Longrightarrow> Inl e \<in> set rs"
proof (induction rs)
  case Nil
  then show ?case by simp
next
  case (Cons r rs)
  then show ?case by (cases r; cases "collect rs") auto
qed

lemma to_string_error: "to_string v = Inl e \<Longrightarrow> e = TypeError NotConvertibleToPrimitive"
proof (induction v arbitrary: e rule: to_string.induct)
  case (6 xs)
  let ?f = "\<lambda>x. if x = Undefined \<or> x = Null then Inr [] else to_string x"
  from "6.prems" have "collect (map ?f xs) = Inl e"
    by (cases "collect (map ?f xs)") auto
  then have "Inl e \<in> set (map ?f xs)" by (rule collect_Inl)
  then obtain x where "x \<in> set xs" and "?f x = Inl e" by auto
  then show ?case using "6.IH" [of x e] by (auto split: if_splits)
qed (auto split: if_splits)

lemma to_primitive_error:
  assumes "to_primitive v = Inl e"
  shows "e = TypeError NotConvertibleToPrimitive"
proof -
  have "to_string v = Inl e"
    using assms by (cases v) (simp_all add: bind_Inl_iff del: to_string.simps)
  then show ?thesis by (rule to_string_error)
qed

lemma js_add_error: "js_add a b = Inl e \<Longrightarrow> e = TypeError NotConvertibleToPrimitive"
  unfolding js_add_def
  by (auto simp: bind_Inl_iff dest: to_primitive_error to_string_error split: if_splits)

lemma registered_tool_error:
  assumes "n \<in> {''hello'', ''echo'', ''get_time'', ''add_numbers''}"
    and "call_tool rt (Str n) args = Inl e"
  shows "\<exists>t. e = TypeError t"
  using assms
  by (auto simp: call_tool_def bind_Inl_iff
      dest!: to_string_error js_add_error get_error split: if_splits)

section \<open>The event stream over time\<close>

text \<open>The first frame, as it goes over the wire.\<close>

lemma init_frame_text:
  \<open>data_frame initMessage =
     ''data: {"jsonrpc":"2.0","method":"notifications/initialized","params":{}}''
       @ [CHR 0x0A, CHR 0x0A]\<close>
  by (simp add: data_frame_def initMessage_def quote_def quote_char_def)






section \<open>The specified behaviour\<close>

text \<open>
  Throughout, a request ``with method \<open>m\<close>'' is any value whose property \<^verbatim>\<open>method\<close> reads
  as \<open>m\<close>, whatever else it holds; likewise for \<^verbatim>\<open>params\<close>, \<^verbatim>\<open>name\<close> and \<^verbatim>\<open>arguments\<close>.
\<close>

text \<open>
  \<^bold>\<open>C1.\<close> A \<^verbatim>\<open>tools/call\<close> request for \<^verbatim>\<open>hello\<close> whose arguments give the string \<open>s\<close> as
  \<^verbatim>\<open>name\<close> succeeds, and its result has the one content item of type text with the text
  \<^verbatim>\<open>Hello, <s>! Welcome to the simple MCP server.\<close>
\<close>

theorem hello_greets:
  assumes "get request ''method'' = Inr (Str ''tools/call'')"
    and "get request ''params'' = Inr params"
    and "get params ''name'' = Inr (Str ''hello'')"
    and "get params ''arguments'' = Inr args"
    and "get args ''name'' = Inr (Str s)"
  shows "handleToolCall rt request =
           Inr (Obj [(''content'',
                      Arr [Obj [(''type'', Str ''text''),
                                (''text'', Str (''Hello, '' @ s
                                                  @ ''! Welcome to the simple MCP server.''))]])])"
  using assms(5) by (simp add: handle_call_tool [OF assms(1-4)] call_tool_def text_content_def)

text \<open>The README's request, with \<open>s\<close> the string \<^verbatim>\<open>World\<close>.\<close>

theorem hello_greets_witness:
  "get (call_request (Str ''hello'') (Obj [(''name'', Str ''World'')])) ''method''
     = Inr (Str ''tools/call'') \<and>
   get (call_request (Str ''hello'') (Obj [(''name'', Str ''World'')])) ''params''
     = Inr (call_params (Str ''hello'') (Obj [(''name'', Str ''World'')])) \<and>
   get (call_params (Str ''hello'') (Obj [(''name'', Str ''World'')])) ''name''
     = Inr (Str ''hello'') \<and>
   get (call_params (Str ''hello'') (Obj [(''name'', Str ''World'')])) ''arguments''
     = Inr (Obj [(''name'', Str ''World'')]) \<and>
   get (Obj [(''name'', Str ''World'')]) ''name'' = Inr (Str ''World'') \<and>
   handleToolCall sample_runtime (call_request (Str ''hello'') (Obj [(''name'', Str ''World'')]))
     = Inr (Obj [(''content'',
                 Arr [Obj [(''type'', Str ''text''),
                           (''text'', Str ''Hello, World! Welcome to the simple MCP server.'')]])])"
proof -
  have args: "get (Obj [(''name'', Str ''World'')]) ''name'' = Inr (Str ''World'')"
    by (simp add: get_def nullish_def)
  from hello_greets [OF get_call_request args, of sample_runtime]
  show ?thesis by (simp add: get_call_request args)
qed



text \<open>
  \<^bold>\<open>C3.\<close> A \<^verbatim>\<open>tools/list\<close> request succeeds and returns \<^verbatim>\<open>{tools: getTools()}\<close>: the four
  descriptors as the registry has them, in the order hello, echo, get_time, add_numbers;
  two such calls return the same, whatever the rest of the requests and whenever made.
\<close>

theorem tools_list_returns_registry:
  assumes "get request ''method'' = Inr (Str ''tools/list'')"
    and "get request' ''method'' = Inr (Str ''tools/list'')"
  shows "handleToolCall rt request = Inr (Obj [(''tools'', Arr getTools)]) \<and>
         map (\<lambda>d. own_property d ''name'') getTools =
           [Str ''hello'', Str ''echo'', Str ''get_time'', Str ''add_numbers''] \<and>
         handleToolCall rt' request' = handleToolCall rt request"
  by (simp add: handle_list [OF assms(1)] handle_list [OF assms(2)] getTools_def)

theorem tools_list_returns_registry_witness:
  "get (Obj [(''method'', Str ''tools/list'')]) ''method'' = Inr (Str ''tools/list'') \<and>
   get (Obj [(''method'', Str ''tools/list''), (''params'', Obj [])]) ''method''
     = Inr (Str ''tools/list'') \<and>
   handleToolCall sample_runtime (Obj [(''method'', Str ''tools/list'')])
     = Inr (Obj [(''tools'', Arr getTools)]) \<and>
   map (\<lambda>d. own_property d ''name'') getTools =
     [Str ''hello'', Str ''echo'', Str ''get_time'', Str ''add_numbers''] \<and>
   handleToolCall (sample_runtime\<lparr>clock := ''2031-01-01T00:00:00.000Z''\<rparr>)
       (Obj [(''method'', Str ''tools/list''), (''params'', Obj [])])
     = handleToolCall sample_runtime (Obj [(''method'', Str ''tools/list'')])"
proof -
  have one: "get (Obj [(''method'', Str ''tools/list'')]) ''method'' = Inr (Str ''tools/list'')"
    by (simp add: get_def nullish_def)
  have two: "get (Obj [(''method'', Str ''tools/list''), (''params'', Obj [])]) ''method''
               = Inr (Str ''tools/list'')"
    by (simp add: get_def nullish_def)
  from tools_list_returns_registry [OF one two, of sample_runtime
      "sample_runtime\<lparr>clock := ''2031-01-01T00:00:00.000Z''\<rparr>"]
  show ?thesis using one two by simp
qed

text \<open>
  \<^bold>\<open>C4.\<close> Whenever a \<^verbatim>\<open>tools/call\<close> request succeeds, whatever the tool and the arguments,
  the result is \<^verbatim>\<open>{content: [item]}\<close> with exactly one item, of type \<^verbatim>\<open>text\<close>.
\<close>

theorem call_result_single_text:
  assumes "get request ''method'' = Inr (Str ''tools/call'')"
    and "handleToolCall rt request = Inr result"
  shows "\<exists>t. result = Obj [(''content'', Arr [Obj [(''type'', Str ''text''), (''text'', Str t)]])]"
proof -
  from assms obtain name args where "call_tool rt name args = Inr result"
    by (auto simp: handle_call bind_Inr_iff)
  then show ?thesis
    by (auto simp: call_tool_def bind_Inr_iff text_content_def split: if_splits)
qed

theorem call_result_single_text_witness:
  "get (call_request (Str ''get_time'') (Obj [])) ''method'' = Inr (Str ''tools/call'') \<and>
   handleToolCall sample_runtime (call_request (Str ''get_time'') (Obj []))
     = Inr (text_content ''Current time: 2024-05-01T12:00:00.000Z'') \<and>
   (\<exists>t. text_content ''Current time: 2024-05-01T12:00:00.000Z''
          = Obj [(''content'', Arr [Obj [(''type'', Str ''text''), (''text'', Str t)]])])"
proof -
  have result: "handleToolCall sample_runtime (call_request (Str ''get_time'') (Obj []))
                  = Inr (text_content ''Current time: 2024-05-01T12:00:00.000Z'')"
    by (simp add: handle_call_tool [OF get_call_request] call_tool_def sample_runtime_def)
  from call_result_single_text [OF get_call_request(1) result]
  show ?thesis using result by (simp add: get_call_request)
qed





text \<open>
  \<^bold>\<open>C7.\<close> The names of the registry and the names the dispatcher handles are the same: a
  \<^verbatim>\<open>tools/call\<close> request for the name \<open>n\<close>, whatever its arguments, escapes the
  \<^verbatim>\<open>Unknown tool\<close> error exactly when \<open>n\<close> is the name of a descriptor that
  \<^verbatim>\<open>tools/list\<close> returns, that is one of hello, echo, get_time, add_numbers.
\<close>

theorem registry_matches_dispatcher:
  assumes "get request ''method'' = Inr (Str ''tools/call'')"
    and "get request ''params'' = Inr params"
    and "get params ''name'' = Inr (Str n)"
  shows "(\<not> unknown_tool_error (handleToolCall rt request)
            \<longleftrightarrow> Str n \<in> set (map (\<lambda>d. own_property d ''name'') getTools)) \<and>
         (\<not> unknown_tool_error (handleToolCall rt request)
            \<longleftrightarrow> n \<in> {''hello'', ''echo'', ''get_time'', ''add_numbers''})"
proof -
  define args where "args = own_property params ''arguments''"
  have "get params ''arguments'' = Inr args"
    using assms(3) by (simp add: get_Inr_iff args_def)
  from handle_call_tool [OF assms this]
  have call: "handleToolCall rt request = call_tool rt (Str n) args" .
  have names: "Str n \<in> set (map (\<lambda>d. own_property d ''name'') getTools)
                 \<longleftrightarrow> n \<in> {''hello'', ''echo'', ''get_time'', ''add_numbers''}"
    by (auto simp: getTools_def)
  have "\<not> unknown_tool_error (call_tool rt (Str n) args)
          \<longleftrightarrow> n \<in> {''hello'', ''echo'', ''get_time'', ''add_numbers''}"
  proof (cases "n \<in> {''hello'', ''echo'', ''get_time'', ''add_numbers''}")
    case True
    then have "\<not> unknown_tool_error (call_tool rt (Str n) args)"
      using registered_tool_error [OF True, of rt args]
      by (cases "call_tool rt (Str n) args") (auto simp: unknown_tool_error_def)
    with True show ?thesis by simp
  next
    case False
    then have "call_tool rt (Str n) args = Inl (Error (''Unknown tool: '' @ n))"
      by (simp add: call_tool_def)
    with False show ?thesis by (simp add: unknown_tool_error_def)
  qed
  with call names show ?thesis by simp
qed

text \<open>A registered name with arguments that make the call throw, and an unregistered one.\<close>

theorem registry_matches_dispatcher_witness:
  "get (call_request (Str ''echo'') Null) ''method'' = Inr (Str ''tools/call'') \<and>
   get (call_request (Str ''echo'') Null) ''params'' = Inr (call_params (Str ''echo'') Null) \<and>
   get (call_params (Str ''echo'') Null) ''name'' = Inr (Str ''echo'') \<and>
   \<not> unknown_tool_error (handleToolCall sample_runtime (call_request (Str ''echo'') Null)) \<and>
   Str ''echo'' \<in> set (map (\<lambda>d. own_property d ''name'') getTools) \<and>
   get (call_request (Str ''Echo'') Null) ''method'' = Inr (Str ''tools/call'') \<and>
   get (call_request (Str ''Echo'') Null) ''params'' = Inr (call_params (Str ''Echo'') Null) \<and>
   get (call_params (Str ''Echo'') Null) ''name'' = Inr (Str ''Echo'') \<and>
   unknown_tool_error (handleToolCall sample_runtime (call_request (Str ''Echo'') Null)) \<and>
   Str ''Echo'' \<notin> set (map (\<lambda>d. own_property d ''name'') getTools)"
proof -
  note registered = get_call_request [of "Str ''echo''" Null]
  note unregistered = get_call_request [of "Str ''Echo''" Null]
  from registry_matches_dispatcher [OF registered(1-3), of sample_runtime]
    registry_matches_dispatcher [OF unregistered(1-3), of sample_runtime]
  show ?thesis by (auto simp: registered unregistered)
qed

text \<open>
  \<^bold>\<open>C8.\<close> A \<^verbatim>\<open>tools/call\<close> request for \<^verbatim>\<open>hello\<close> whose arguments object has no \<^verbatim>\<open>name\<close> still
  succeeds, with the text \<^verbatim>\<open>Hello, undefined! Welcome to the simple MCP server.\<close>; one for
  \<^verbatim>\<open>echo\<close> whose arguments object has no \<^verbatim>\<open>message\<close> succeeds with \<^verbatim>\<open>Echo: undefined\<close>.
\<close>

theorem missing_field_prints_undefined:
  assumes "get request ''method'' = Inr (Str ''tools/call'')"
    and "get request ''params'' = Inr params"
    and "get params ''name'' = Inr (Str ''hello'')"
    and "get params ''arguments'' = Inr (Obj props)"
    and "''name'' \<notin> set (map fst props)"
    and "get request' ''method'' = Inr (Str ''tools/call'')"
    and "get request' ''params'' = Inr params'"
    and "get params' ''name'' = Inr (Str ''echo'')"
    and "get params' ''arguments'' = Inr (Obj props')"
    and "''message'' \<notin> set (map fst props')"
  shows "handleToolCall rt request =
           Inr (Obj [(''content'',
                      Arr [Obj [(''type'', Str ''text''),
                                (''text'', Str ''Hello, undefined! Welcome to the simple MCP server.'')]])]) \<and>
         handleToolCall rt request' =
           Inr (Obj [(''content'',
                      Arr [Obj [(''type'', Str ''text''),
                                (''text'', Str ''Echo: undefined'')]])])"
proof -
  have "own_property (Obj props) ''name'' = Undefined"
    using assms(5) by (intro own_property_absent) simp
  moreover have "own_property (Obj props') ''message'' = Undefined"
    using assms(10) by (intro own_property_absent) simp
  ultimately show ?thesis
    by (simp add: handle_call_tool [OF assms(1-4)] handle_call_tool [OF assms(6-9)]
        call_tool_def text_content_def get_def nullish_def del: own_property.simps)
qed

theorem missing_field_prints_undefined_witness:
  "get (call_request (Str ''hello'') (Obj [])) ''method'' = Inr (Str ''tools/call'') \<and>
   get (call_request (Str ''hello'') (Obj [])) ''params''
     = Inr (call_params (Str ''hello'') (Obj [])) \<and>
   get (call_params (Str ''hello'') (Obj [])) ''name'' = Inr (Str ''hello'') \<and>
   get (call_params (Str ''hello'') (Obj [])) ''arguments'' = Inr (Obj []) \<and>
   ''name'' \<notin> set (map fst ([] :: (string \<times> jsval) list)) \<and>
   get (call_request (Str ''echo'') (Obj [(''text'', Str ''ping'')])) ''method''
     = Inr (Str ''tools/call'') \<and>
   get (call_request (Str ''echo'') (Obj [(''text'', Str ''ping'')])) ''params''
     = Inr (call_params (Str ''echo'') (Obj [(''text'', Str ''ping'')])) \<and>
   get (call_params (Str ''echo'') (Obj [(''text'', Str ''ping'')])) ''name''
     = Inr (Str ''echo'') \<and>
   get (call_params (Str ''echo'') (Obj [(''text'', Str ''ping'')])) ''arguments''
     = Inr (Obj [(''text'', Str ''ping'')]) \<and>
   ''message'' \<notin> set (map fst [(''text'', Str ''ping'')]) \<and>
   handleToolCall sample_runtime (call_request (Str ''hello'') (Obj []))
     = Inr (Obj [(''content'',
                 Arr [Obj [(''type'', Str ''text''),
                           (''text'', Str ''Hello, undefined! Welcome to the simple MCP server.'')]])]) \<and>
   handleToolCall sample_runtime (call_request (Str ''echo'') (Obj [(''text'', Str ''ping'')]))
     = Inr (Obj [(''content'',
                 Arr [Obj [(''type'', Str ''text''), (''text'', Str ''Echo: undefined'')]])])"
proof -
  note hello = get_call_request [of "Str ''hello''" "Obj []"]
  note echo = get_call_request [of "Str ''echo''" "Obj [(''text'', Str ''ping'')]"]
  have no_name: "''name'' \<notin> set (map fst ([] :: (string \<times> jsval) list))"
    by simp
  have no_message: "''message'' \<notin> set (map fst [(''text'', Str ''ping'')])"
    by simp
  from missing_field_prints_undefined [OF hello no_name echo no_message, of sample_runtime]
  show ?thesis by (simp add: hello echo)
qed



text \<open>
  \<^bold>\<open>C10.\<close> A \<^verbatim>\<open>tools/call\<close> request without \<^verbatim>\<open>params\<close> makes the destructuring of
  \<^verbatim>\<open>params\<close> throw a \<^verbatim>\<open>TypeError\<close>, which is neither of the two errors the dispatcher
  constructs; the POST endpoints answer it too with status 500 and the body
  \<^verbatim>\<open>{error: <message of the TypeError>}\<close>.
\<close>

theorem params_absent_type_error:
  assumes "get request ''method'' = Inr (Str ''tools/call'')"
    and "get request ''params'' = Inr Undefined"
  shows "handleToolCall rt request = Inl (TypeError NotDestructurable) \<and>
         (\<forall>m. handleToolCall rt request \<noteq> Inl (Error m)) \<and>
         post_tool_call rt request =
           \<lparr>status = 500,
            body = Obj [(''error'', Str (type_error_message rt NotDestructurable))]\<rparr>"
proof -
  have "own_property request ''params'' = Undefined"
    using assms(2) by (simp add: get_Inr_iff)
  then have "handleToolCall rt request = Inl (TypeError NotDestructurable)"
    by (simp add: handle_call [OF assms(1)] destructure_def nullish_def)
  then show ?thesis by (simp add: post_tool_call_def)
qed

theorem params_absent_type_error_witness:
  "get (Obj [(''method'', Str ''tools/call'')]) ''method'' = Inr (Str ''tools/call'') \<and>
   get (Obj [(''method'', Str ''tools/call'')]) ''params'' = Inr Undefined \<and>
   handleToolCall sample_runtime (Obj [(''method'', Str ''tools/call'')])
     = Inl (TypeError NotDestructurable) \<and>
   post_tool_call sample_runtime (Obj [(''method'', Str ''tools/call'')])
     = \<lparr>status = 500,
        body = Obj [(''error'', Str ''Cannot destructure property of undefined'')]\<rparr>"
proof -
  have reads: "get (Obj [(''method'', Str ''tools/call'')]) ''method'' = Inr (Str ''tools/call'')"
    and absent: "get (Obj [(''method'', Str ''tools/call'')]) ''params'' = Inr Undefined"
    by (simp_all add: get_def nullish_def)
  from params_absent_type_error [OF reads absent, of sample_runtime]
  show ?thesis using reads absent by (simp add: sample_runtime_def)
qed

end
